theory Spec2Isabelle
  imports Complex_Main "HOL-Library.Sublist"
begin

section \<open>Python values and the runtime\<close>

text \<open>
  A Python \<open>str\<close> is a sequence of Unicode code points, so it is a list of naturals and
  \<open>length\<close> counts code points as \<open>len\<close> does. ASCII literals of the source are written
  with \<open>ascii\<close>; the Devanagari literals are written as their code points.

  A Python \<open>float\<close> is modelled by \<open>real\<close>: comparisons and \<open>1 - x\<close> are those of exact
  arithmetic, and neither NaN nor the infinities exist.
\<close>

type_synonym codepoint = nat
type_synonym pystr = "codepoint list"

definition ascii :: "string \<Rightarrow> pystr" where
  "ascii s = map of_char s"

datatype exn =
    EmbeddingServiceError
  | IndexUnavailableError
  | GenerationServiceError
  | KeyError pystr
  | TypeError
  | HTTPException nat pystr

text \<open>
  The Unicode tables and string methods of the Python runtime are not part of the
  repository; they are parameters of the model: the characters \<open>\d\<close> matches, the
  characters \<open>str.strip()\<close> removes, \<open>str.lower()\<close>, \<open>str.upper()\<close> and \<open>str(e)\<close> of an
  exception.
\<close>

record pyrt =
  re_digit :: "codepoint \<Rightarrow> bool"
  str_isspace :: "codepoint \<Rightarrow> bool"
  str_lower :: "pystr \<Rightarrow> pystr"
  str_upper :: "pystr \<Rightarrow> pystr"
  exc_str :: "exn \<Rightarrow> pystr"

definition str_strip :: "pyrt \<Rightarrow> pystr \<Rightarrow> pystr" where
  "str_strip rt s = rev (dropWhile (str_isspace rt) (rev (dropWhile (str_isspace rt) s)))"

text \<open>\<open>sub in s\<close> on strings: \<open>sub\<close> occurs in \<open>s\<close> as a contiguous block.\<close>

fun str_in :: "pystr \<Rightarrow> pystr \<Rightarrow> bool" where
  "str_in sub [] = (sub = [])"
| "str_in sub (c # cs) = (prefix sub (c # cs) \<or> str_in sub cs)"

text \<open>\<open>sep.join(xs)\<close>.\<close>

fun str_join :: "pystr \<Rightarrow> pystr list \<Rightarrow> pystr" where
  "str_join sep [] = []"
| "str_join sep [x] = x"
| "str_join sep (x # y # ys) = x @ sep @ str_join sep (y # ys)"

text \<open>
  \<open>re.findall(r'\d+', s)\<close>: scanning from the left, a digit starts a match, the greedy
  \<open>+\<close> extends it over every digit that follows, and the scan resumes after the match.
\<close>

function re_findall_digits :: "(codepoint \<Rightarrow> bool) \<Rightarrow> pystr \<Rightarrow> pystr list" where
  "re_findall_digits d [] = []"
| "re_findall_digits d (c # cs) =
     (if d c then (c # takeWhile d cs) # re_findall_digits d (dropWhile d cs)
      else re_findall_digits d cs)"
  by pat_completeness auto
termination
  by (relation "measure (\<lambda>(d, s). length s)")
     (auto simp: le_imp_less_Suc length_dropWhile_le)

text \<open>An ASCII and Devanagari instance of the runtime tables, for concrete evaluation.\<close>

definition ascii_lower :: "codepoint \<Rightarrow> codepoint" where
  "ascii_lower c = (if 65 \<le> c \<and> c \<le> 90 then c + 32 else c)"

definition ascii_upper :: "codepoint \<Rightarrow> codepoint" where
  "ascii_upper c = (if 97 \<le> c \<and> c \<le> 122 then c - 32 else c)"

definition basic_rt :: pyrt where
  "basic_rt = \<lparr>
     re_digit = (\<lambda>c. (48 \<le> c \<and> c \<le> 57) \<or> (2406 \<le> c \<and> c \<le> 2415)),
     str_isspace = (\<lambda>c. (9 \<le> c \<and> c \<le> 13) \<or> (28 \<le> c \<and> c \<le> 32)),
     str_lower = map ascii_lower,
     str_upper = map ascii_upper,
     exc_str = (\<lambda>e. case e of
         HTTPException code detail \<Rightarrow> ascii (if code = 400 then ''400: '' else ''500: '') @ detail
       | KeyError k \<Rightarrow> [39] @ k @ [39]
       | _ \<Rightarrow> [])\<rparr>"

section \<open>The external collaborators\<close>

text \<open>
  The embedding service, the Chroma collection and the chat-completion service are
  outside the repository. Each is a function of the request that either raises or
  returns; every request the program issues is recorded, in order, in a list of calls.
  A query answers with one row per neighbour (Chroma's three parallel columns
  \<open>documents\<close>, \<open>metadatas\<close>, \<open>distances\<close> of equal length), nearest first.
\<close>

type_synonym metadata = "pystr \<rightharpoonup> pystr"

record neighbour =
  document :: pystr
  metadata :: metadata
  distance :: real

record indexed_vector =
  ids :: pystr
  documents :: pystr
  metadatas :: metadata
  embeddings :: "real list"

record services =
  embeddings_create :: "pystr \<Rightarrow> exn + real list"
  collection_count :: "exn + nat"
  collection_add :: "indexed_vector \<Rightarrow> exn + unit"
  collection_query :: "real list \<Rightarrow> nat \<Rightarrow> exn + neighbour list"
  chat_completions_create :: "pystr \<Rightarrow> real option \<Rightarrow> exn + pystr"

datatype call =
    EmbeddingsCreate pystr
  | CollectionCount
  | CollectionAdd indexed_vector
  | CollectionQuery "real list" nat
  | ChatCompletionsCreate pystr "real option"

fun is_chat_call :: "call \<Rightarrow> bool" where
  "is_chat_call (ChatCompletionsCreate p temp) = True"
| "is_chat_call c = False"

definition get_embedding :: "services \<Rightarrow> pystr \<Rightarrow> call list \<times> (exn + real list)" where
  "get_embedding sv text = ([EmbeddingsCreate text], embeddings_create sv text)"

section \<open>The decision engine: \<open>rag_answer\<close>\<close>

definition folio_keywords :: "pystr list" where
  "folio_keywords =
     [ascii ''folio'', ascii ''folio number'',
      [2347, 2379, 2354, 2367, 2351, 2379],
      [2347, 2379, 2354, 2367, 2351, 2379, 32, 2344, 2306, 2348, 2352]]"

definition folio_refusal :: pystr where
  "folio_refusal = ascii ''Sorry, I can't provide information about folio numbers.''"

definition no_similar_question :: pystr where
  "no_similar_question = ascii ''No similar question found in the dataset.''"

definition domain_refusal :: pystr where
  "domain_refusal = ascii ''I'm sorry, I can only answer questions related to finance, stock market, and investments. Please ask a finance-related question.''"

text \<open>
  Lines 99 to 103: the loop over the digit runs returns at the first run longer than 7
  when some keyword occurs in the lowered question.
\<close>

definition folio_check :: "pyrt \<Rightarrow> pystr \<Rightarrow> bool" where
  "folio_check rt user_query =
     list_ex (\<lambda>num. 7 < length num \<and>
                list_ex (\<lambda>keyword. str_in (str_lower rt keyword) (str_lower rt user_query))
                  folio_keywords)
       (re_findall_digits (re_digit rt) user_query)"

definition meta_get :: "metadata \<Rightarrow> pystr \<Rightarrow> exn + pystr" where
  "meta_get meta key = (case meta key of None \<Rightarrow> Inl (KeyError key) | Some v \<Rightarrow> Inr v)"

definition with_score :: "exn + pystr \<Rightarrow> real \<Rightarrow> exn + pystr \<times> real" where
  "with_score r s = (case r of Inl e \<Rightarrow> Inl e | Inr a \<Rightarrow> Inr (a, s))"

text \<open>
  Lines 130 to 137, the body of the match branch. \<open>None\<close>: no \<open>return\<close> was reached and
  control leaves the \<open>if\<close>.
\<close>

definition match_branch :: "metadata \<Rightarrow> real \<Rightarrow> (exn + pystr \<times> real) option" where
  "match_branch meta top_distance =
     (case meta_get meta (ascii ''language'') of
        Inl e \<Rightarrow> Some (Inl e)
      | Inr lang \<Rightarrow>
          if lang = ascii ''english''
            then Some (with_score (meta_get meta (ascii ''answer_english'')) (1 - top_distance))
          else if lang = ascii ''hindi''
            then Some (with_score (meta_get meta (ascii ''answer_hindi'')) (1 - top_distance))
          else if lang = ascii ''hinglish''
            then Some (with_score (meta_get meta (ascii ''answer_hinglish'')) (1 - top_distance))
          else None)"

definition finance_check_prompt :: "pystr \<Rightarrow> pystr" where
  \<open>finance_check_prompt user_query =
     [10] @ ascii ''You are a financial domain classifier. Determine if the following question is related to finance, stock market, investments, mutual funds, trading, banking, or financial services.''
     @ [10, 10] @ ascii ''Question: '' @ user_query
     @ [10, 10] @ ascii ''Answer with ONLY "YES" if it's finance-related, or "NO" if it's not finance-related. No explanation needed.''
     @ [10]\<close>

definition context_entry :: "pystr \<Rightarrow> pystr \<Rightarrow> pystr \<Rightarrow> pystr" where
  "context_entry doc answer_english answer_hindi =
     ascii ''Q: '' @ doc @ [10] @ ascii ''A (English): '' @ answer_english
     @ [10] @ ascii ''A (Hindi): '' @ answer_hindi"

text \<open>Lines 165 to 169: the loop over the retrieved rows; the first missing key raises.\<close>

fun build_contexts :: "neighbour list \<Rightarrow> exn + pystr list" where
  "build_contexts [] = Inr []"
| "build_contexts (n # ns) =
     (case meta_get (metadata n) (ascii ''answer_english'') of
        Inl e \<Rightarrow> Inl e
      | Inr ae \<Rightarrow>
          (case meta_get (metadata n) (ascii ''answer_hindi'') of
             Inl e \<Rightarrow> Inl e
           | Inr ah \<Rightarrow>
               (case build_contexts ns of
                  Inl e \<Rightarrow> Inl e
                | Inr contexts \<Rightarrow> Inr (context_entry (document n) ae ah # contexts))))"

definition answer_prompt :: "pystr \<Rightarrow> pystr \<Rightarrow> pystr" where
  "answer_prompt context_text user_query =
     [10] @ ascii ''You are a helpful financial assistant. Use the following context to answer the user query about finance.''
     @ [10, 10] @ ascii ''Context:'' @ [10] @ context_text
     @ [10, 10] @ ascii ''User Query: '' @ user_query
     @ [10, 10] @ ascii ''Answer in a clear and natural way. Focus only on financial information.''
     @ [10]"

text \<open>
  Lines 139 to 188: the classifier call (temperature 0), the refusal unless the stripped,
  uppercased reply is \<open>YES\<close>, then the generator call (no temperature given).
\<close>

definition gpt_fallback ::
  "pyrt \<Rightarrow> services \<Rightarrow> pystr \<Rightarrow> neighbour list \<Rightarrow> real \<Rightarrow> call list \<times> (exn + pystr \<times> real)" where
  "gpt_fallback rt sv user_query results top_distance =
     (let check = ChatCompletionsCreate (finance_check_prompt user_query) (Some 0) in
      case chat_completions_create sv (finance_check_prompt user_query) (Some 0) of
        Inl e \<Rightarrow> ([check], Inl e)
      | Inr content \<Rightarrow>
          if str_upper rt (str_strip rt content) \<noteq> ascii ''YES''
          then ([check], Inr (domain_refusal, 0))
          else
            (case build_contexts results of
               Inl e \<Rightarrow> ([check], Inl e)
             | Inr contexts \<Rightarrow>
                 (let prompt = answer_prompt (str_join [10, 10] contexts) user_query in
                  case chat_completions_create sv prompt None of
                    Inl e \<Rightarrow> ([check, ChatCompletionsCreate prompt None], Inl e)
                  | Inr text \<Rightarrow>
                      ([check, ChatCompletionsCreate prompt None],
                       Inr (text, 1 - top_distance)))))"

text \<open>
  Lines 119 to 188, once the query has returned at least one row. The threshold arrives
  from the request as an optional float; \<open>1 - None\<close> raises a \<open>TypeError\<close> (line 126).
\<close>

definition threshold_step ::
  "pyrt \<Rightarrow> services \<Rightarrow> pystr \<Rightarrow> real option \<Rightarrow> neighbour list \<Rightarrow> neighbour
     \<Rightarrow> call list \<times> (exn + pystr \<times> real)" where
  "threshold_step rt sv user_query similarity_threshold results top_row =
     (let top_distance = distance top_row; meta = metadata top_row in
      case similarity_threshold of
        None \<Rightarrow> ([], Inl TypeError)
      | Some t \<Rightarrow>
          (case (if top_distance \<le> 1 - t then match_branch meta top_distance else None) of
             Some r \<Rightarrow> ([], r)
           | None \<Rightarrow> gpt_fallback rt sv user_query results top_distance))"

definition rag_answer ::
  "pyrt \<Rightarrow> services \<Rightarrow> pystr \<Rightarrow> real option \<Rightarrow> call list \<times> (exn + pystr \<times> real)" where
  "rag_answer rt sv user_query similarity_threshold =
     (if folio_check rt user_query then ([], Inr (folio_refusal, 0))
      else
        (case get_embedding sv user_query of
           (c1, Inl e) \<Rightarrow> (c1, Inl e)
         | (c1, Inr query_emb) \<Rightarrow>
             (let c2 = c1 @ [CollectionQuery query_emb 2] in
              case collection_query sv query_emb 2 of
                Inl e \<Rightarrow> (c2, Inl e)
              | Inr results \<Rightarrow>
                  (case results of
                     [] \<Rightarrow> (c2, Inr (no_similar_question, 0))
                   | top_row # rest \<Rightarrow>
                       (case threshold_step rt sv user_query similarity_threshold results top_row of
                          (c3, r) \<Rightarrow> (c2 @ c3, r))))))"

text \<open>
  A maximal digit run of \<open>s\<close>: a non-empty block of digits of \<open>s\<close> with no digit next to
  it on either side. Stated on the decomposition of the string, not on the scan.
\<close>

definition maximal_digit_run :: "(codepoint \<Rightarrow> bool) \<Rightarrow> pystr \<Rightarrow> pystr \<Rightarrow> bool" where
  "maximal_digit_run d s run =
     (run \<noteq> [] \<and> list_all d run \<and>
      (\<exists>pre post. s = pre @ run @ post \<and>
         (pre = [] \<or> (\<exists>p c. pre = p @ [c] \<and> \<not> d c)) \<and>
         (post = [] \<or> (\<exists>c p. post = c # p \<and> \<not> d c))))"

text \<open>A folio keyword occurs in the question, both lowered.\<close>

definition contains_folio_keyword :: "pyrt \<Rightarrow> pystr \<Rightarrow> bool" where
  "contains_folio_keyword rt s =
     (\<exists>keyword \<in> set folio_keywords.
        sublist (str_lower rt keyword) (str_lower rt s))"

section \<open>The request/response shim: \<open>chat\<close>\<close>

record query_request =
  question :: pystr
  similarity_threshold :: "real option"

record query_response =
  status :: pystr
  user_query :: pystr
  bot_response :: pystr
  similarity_score :: "real option"

text \<open>
  \<open>round(x, 4)\<close>: the multiple of \<open>0.0001\<close> nearest to \<open>x\<close>, a tie going to the even
  multiple.
\<close>

definition py_round4 :: "real \<Rightarrow> real" where
  "py_round4 x =
     (let y = x * 10000; f = \<lfloor>y\<rfloor>; r = y - of_int f in
      of_int (if r < 1 / 2 then f else if 1 / 2 < r then f + 1
              else if even f then f else f + 1) / 10000)"

text \<open>The body of the \<open>try\<close> (lines 221 to 231).\<close>

definition chat_try :: "pyrt \<Rightarrow> services \<Rightarrow> query_request \<Rightarrow> call list \<times> (exn + query_response)" where
  "chat_try rt sv query =
     (if question query = [] \<or> str_strip rt (question query) = []
      then ([], Inl (HTTPException 400 (ascii ''Question cannot be empty'')))
      else
        (case rag_answer rt sv (question query) (similarity_threshold query) of
           (cs, Inl e) \<Rightarrow> (cs, Inl e)
         | (cs, Inr (answer, similarity)) \<Rightarrow>
             (cs, Inr \<lparr>status = ascii ''success'',
                       user_query = question query,
                       bot_response = answer,
                       similarity_score =
                         (if similarity \<noteq> 0 then Some (py_round4 similarity) else None)\<rparr>)))"

text \<open>
  \<open>except Exception as e\<close> (lines 232, 233) catches whatever the body raised, the
  \<open>HTTPException\<close> of line 222 included, and raises status 500.
\<close>

definition chat :: "pyrt \<Rightarrow> services \<Rightarrow> query_request \<Rightarrow> call list \<times> (exn + query_response)" where
  "chat rt sv query =
     (case chat_try rt sv query of
        (cs, Inl e) \<Rightarrow>
          (cs, Inl (HTTPException 500 (ascii ''Error processing query: '' @ exc_str rt e)))
      | (cs, Inr response) \<Rightarrow> (cs, Inr response))"

fun status_code :: "exn + query_response \<Rightarrow> nat" where
  "status_code (Inl (HTTPException code detail)) = code"
| "status_code (Inl e) = 500"
| "status_code (Inr response) = 200"

section \<open>The corpus loader: \<open>initialize_app\<close>\<close>

text \<open>
  Modelled from the spec: the corpus file \<open>json_data.json\<close> is not in the repository; an
  entry has an \<open>id\<close> and a question and an answer in three language variants each
  (CorpusEntry of the data model).
\<close>

record variants =
  english :: pystr
  hinglish :: pystr
  hindi :: pystr

record corpus_entry =
  entry_id :: pystr
  entry_question :: variants
  entry_answer :: variants

text \<open>A \<open>for\<close> loop whose body may raise: the first exception ends the loop.\<close>

fun for_each :: "('a \<Rightarrow> call list \<times> exn option) \<Rightarrow> 'a list \<Rightarrow> call list \<times> exn option" where
  "for_each body [] = ([], None)"
| "for_each body (x # xs) =
     (case body x of
        (cs, Some e) \<Rightarrow> (cs, Some e)
      | (cs, None) \<Rightarrow> (case for_each body xs of (cs', r) \<Rightarrow> (cs @ cs', r)))"

definition make_row :: "corpus_entry \<Rightarrow> pystr \<Rightarrow> pystr \<Rightarrow> real list \<Rightarrow> indexed_vector" where
  "make_row item lang q_text emb =
     \<lparr>ids = entry_id item @ ascii ''_'' @ lang,
      documents = q_text,
      metadatas =
        [ascii ''answer_english'' \<mapsto> english (entry_answer item),
         ascii ''answer_hinglish'' \<mapsto> hinglish (entry_answer item),
         ascii ''answer_hindi'' \<mapsto> hindi (entry_answer item),
         ascii ''language'' \<mapsto> lang],
      embeddings = emb\<rparr>"

text \<open>Lines 51 to 63, the body of the inner loop.\<close>

definition store_variant ::
  "pyrt \<Rightarrow> services \<Rightarrow> corpus_entry \<Rightarrow> pystr \<times> pystr \<Rightarrow> call list \<times> exn option" where
  "store_variant rt sv item v =
     (case v of (lang, q_text) \<Rightarrow>
        if str_strip rt q_text \<noteq> [] then
          (case get_embedding sv q_text of
             (c1, Inl e) \<Rightarrow> (c1, Some e)
           | (c1, Inr emb) \<Rightarrow>
               (let row = make_row item lang q_text emb in
                case collection_add sv row of
                  Inl e \<Rightarrow> (c1 @ [CollectionAdd row], Some e)
                | Inr u \<Rightarrow> (c1 @ [CollectionAdd row], None)))
        else ([], None))"

definition question_variants :: "corpus_entry \<Rightarrow> (pystr \<times> pystr) list" where
  "question_variants item =
     [(ascii ''english'', english (entry_question item)),
      (ascii ''hinglish'', hinglish (entry_question item)),
      (ascii ''hindi'', hindi (entry_question item))]"

definition store_item :: "pyrt \<Rightarrow> services \<Rightarrow> corpus_entry \<Rightarrow> call list \<times> exn option" where
  "store_item rt sv item = for_each (store_variant rt sv item) (question_variants item)"

text \<open>Lines 44 to 66.\<close>

definition initialize_app :: "pyrt \<Rightarrow> services \<Rightarrow> corpus_entry list \<Rightarrow> call list \<times> exn option" where
  "initialize_app rt sv data =
     (case collection_count sv of
        Inl e \<Rightarrow> ([CollectionCount], Some e)
      | Inr n \<Rightarrow>
          if n = 0 then
            (case for_each (store_item rt sv) data of (cs, r) \<Rightarrow> (CollectionCount # cs, r))
          else ([CollectionCount], None))"

text \<open>
  The rows the loader is to insert: for every corpus entry, in corpus order, and for
  every language variant whose question text is non-empty after stripping, one row
  keyed \<open>id_language\<close> that carries the question text, its embedding, the three answer
  variants and the language tag.
\<close>

definition expected_rows :: "pyrt \<Rightarrow> (pystr \<Rightarrow> real list) \<Rightarrow> corpus_entry list \<Rightarrow> indexed_vector list" where
  "expected_rows rt emb data =
     concat (map (\<lambda>item.
       concat (map (\<lambda>v.
           if str_strip rt (snd v (entry_question item)) = [] then []
           else [\<lparr>ids = entry_id item @ ascii ''_'' @ fst v,
                  documents = snd v (entry_question item),
                  metadatas =
                    [ascii ''answer_english'' \<mapsto> english (entry_answer item),
                     ascii ''answer_hinglish'' \<mapsto> hinglish (entry_answer item),
                     ascii ''answer_hindi'' \<mapsto> hindi (entry_answer item),
                     ascii ''language'' \<mapsto> fst v],
                  embeddings = emb (snd v (entry_question item))\<rparr>])
         [(ascii ''english'', english), (ascii ''hinglish'', hinglish), (ascii ''hindi'', hindi)]))
       data)"

fun added_rows :: "call list \<Rightarrow> indexed_vector list" where
  "added_rows [] = []"
| "added_rows (CollectionAdd row # cs) = row # added_rows cs"
| "added_rows (c # cs) = added_rows cs"

section \<open>Concrete collaborators for evaluation\<close>

text \<open>
  Services that answer every request the same way: the embedding request with \<open>emb\<close>,
  a query with the first \<open>k\<close> of \<open>rows\<close>, the classifier request (temperature given) with
  \<open>reply\<close> and the generator request with a fixed text.
\<close>

definition stub_services :: "exn + real list \<Rightarrow> neighbour list \<Rightarrow> pystr \<Rightarrow> services" where
  "stub_services emb rows reply =
     \<lparr>embeddings_create = (\<lambda>text. emb),
      collection_count = Inr 0,
      collection_add = (\<lambda>row. Inr ()),
      collection_query = (\<lambda>e k. Inr (take k rows)),
      chat_completions_create =
        (\<lambda>prompt temp. case temp of Some x \<Rightarrow> Inr reply | None \<Rightarrow> Inr (ascii ''generated answer''))\<rparr>"

definition stored_row :: "pystr \<Rightarrow> real \<Rightarrow> neighbour" where
  "stored_row lang d =
     \<lparr>document = ascii ''What is a mutual fund?'',
      metadata =
        [ascii ''answer_english'' \<mapsto> ascii ''A pooled investment.'',
         ascii ''answer_hinglish'' \<mapsto> ascii ''Ek pooled investment.'',
         ascii ''answer_hindi'' \<mapsto> [2344, 2367, 2357, 2375, 2358],
         ascii ''language'' \<mapsto> lang],
      distance = d\<rparr>"

definition demo_corpus :: "corpus_entry list" where
  "demo_corpus =
     [\<lparr>entry_id = ascii ''q1'',
       entry_question = \<lparr>english = ascii ''What is SIP?'', hinglish = ascii ''  '',
                         hindi = [2319, 2360, 2310, 2312, 2346, 2368]\<rparr>,
       entry_answer = \<lparr>english = ascii ''A plan.'', hinglish = ascii ''Ek plan.'',
                       hindi = [2351, 2379, 2332, 2344, 2366]\<rparr>\<rparr>]"

text \<open>
  The question passes the guard, its embedding is \<open>emb\<close> and the query for the two
  nearest rows answers \<open>rows\<close>.
\<close>

definition retrieves :: "pyrt \<Rightarrow> services \<Rightarrow> pystr \<Rightarrow> real list \<Rightarrow> neighbour list \<Rightarrow> bool" where
  "retrieves rt sv q emb rows =
     (folio_check rt q = False \<and> embeddings_create sv q = Inr emb \<and>
      collection_query sv emb 2 = Inr rows)"

definition known_languages :: "pystr list" where
  "known_languages = [ascii ''english'', ascii ''hindi'', ascii ''hinglish'']"

section \<open>The sensitive-data guard\<close>

lemma str_in_sublist: "str_in sub s \<longleftrightarrow> sublist sub s"
  by (induction s) (auto simp: sublist_Cons_right)

lemma mdr_Nil: "\<not> maximal_digit_run d [] run"
  by (auto simp: maximal_digit_run_def)

lemma takeWhile_run:
  assumes "list_all d run" "post = [] \<or> (\<exists>c p. post = c # p \<and> \<not> d c)"
  shows "takeWhile d (run @ post) = run"
  using assms by (auto simp: list_all_iff takeWhile_append2)

lemma mdr_nondigit:
  assumes "\<not> d c"
  shows "maximal_digit_run d (c # cs) run \<longleftrightarrow> maximal_digit_run d cs run"
proof
  assume "maximal_digit_run d (c # cs) run"
  then obtain pre post where h: "run \<noteq> []" "list_all d run" "c # cs = pre @ run @ post"
    "pre = [] \<or> (\<exists>p c. pre = p @ [c] \<and> \<not> d c)"
    "post = [] \<or> (\<exists>c p. post = c # p \<and> \<not> d c)"
    by (auto simp: maximal_digit_run_def)
  from h(1,2,3) assms have "pre \<noteq> []" by (cases run) auto
  then obtain pre' where p: "pre = c # pre'" using h(3) by (cases pre) auto
  with h(3) have cs: "cs = pre' @ run @ post" by simp
  have "pre' = [] \<or> (\<exists>p c. pre' = p @ [c] \<and> \<not> d c)"
    using h(4) p by (cases pre' rule: rev_cases) auto
  with h cs show "maximal_digit_run d cs run"
    unfolding maximal_digit_run_def by blast
next
  assume "maximal_digit_run d cs run"
  then obtain pre post where h: "run \<noteq> []" "list_all d run" "cs = pre @ run @ post"
    "pre = [] \<or> (\<exists>p c. pre = p @ [c] \<and> \<not> d c)"
    "post = [] \<or> (\<exists>c p. post = c # p \<and> \<not> d c)"
    by (auto simp: maximal_digit_run_def)
  have 1: "c # cs = (c # pre) @ run @ post" using h(3) by simp
  have 2: "\<exists>p c'. c # pre = p @ [c'] \<and> \<not> d c'"
    using h(4) assms by (cases pre rule: rev_cases) auto
  from h(1,2,5) 1 2 show "maximal_digit_run d (c # cs) run"
    unfolding maximal_digit_run_def by blast
qed

lemma mdr_digit:
  assumes "d c"
  shows "maximal_digit_run d (c # cs) run \<longleftrightarrow>
         run = c # takeWhile d cs \<or> maximal_digit_run d (dropWhile d cs) run"
proof
  assume "maximal_digit_run d (c # cs) run"
  then obtain pre post where h: "run \<noteq> []" "list_all d run" "c # cs = pre @ run @ post"
    "pre = [] \<or> (\<exists>p c. pre = p @ [c] \<and> \<not> d c)"
    "post = [] \<or> (\<exists>c p. post = c # p \<and> \<not> d c)"
    by (auto simp: maximal_digit_run_def)
  have tw: "takeWhile d (c # cs) = c # takeWhile d cs" using assms by simp
  show "run = c # takeWhile d cs \<or> maximal_digit_run d (dropWhile d cs) run"
  proof (cases "pre = []")
    case True
    with h(3) have "takeWhile d (c # cs) = takeWhile d (run @ post)" by simp
    also have "\<dots> = run" using h(2,5) by (rule takeWhile_run)
    finally show ?thesis using tw by simp
  next
    case False
    with h(4) obtain p c' where p: "pre = p @ [c']" "\<not> d c'" by blast
    with h(3) have eq: "c # cs = p @ c' # (run @ post)" by simp
    have "takeWhile d (c # cs) = takeWhile d p"
      unfolding eq using p(2) by (rule takeWhile_tail)
    with tw have tp: "takeWhile d p = c # takeWhile d cs" by simp
    have "p = (c # takeWhile d cs) @ dropWhile d p"
      using takeWhile_dropWhile_id [of d p] tp by simp
    with eq have "c # cs = ((c # takeWhile d cs) @ dropWhile d p) @ c' # (run @ post)"
      by simp
    then have "cs = takeWhile d cs @ (dropWhile d p @ [c']) @ run @ post" by simp
    then have "dropWhile d cs = (dropWhile d p @ [c']) @ run @ post"
      by (metis same_append_eq takeWhile_dropWhile_id)
    with h(1,2,5) p(2) have "maximal_digit_run d (dropWhile d cs) run"
      unfolding maximal_digit_run_def by blast
    then show ?thesis ..
  qed
next
  assume a: "run = c # takeWhile d cs \<or> maximal_digit_run d (dropWhile d cs) run"
  have hd: "dropWhile d cs = [] \<or> (\<exists>x r. dropWhile d cs = x # r \<and> \<not> d x)"
    using hd_dropWhile [of d cs] by (cases "dropWhile d cs") auto
  from a show "maximal_digit_run d (c # cs) run"
  proof
    assume r: "run = c # takeWhile d cs"
    have 1: "list_all d run" using r assms by (auto simp: list_all_iff dest: set_takeWhileD)
    have 2: "c # cs = [] @ run @ dropWhile d cs" using r by simp
    from r 1 2 hd show ?thesis unfolding maximal_digit_run_def by blast
  next
    assume "maximal_digit_run d (dropWhile d cs) run"
    then obtain pre post where h: "run \<noteq> []" "list_all d run"
      "dropWhile d cs = pre @ run @ post"
      "pre = [] \<or> (\<exists>p c. pre = p @ [c] \<and> \<not> d c)"
      "post = [] \<or> (\<exists>c p. post = c # p \<and> \<not> d c)"
      by (auto simp: maximal_digit_run_def)
    have "pre \<noteq> []"
    proof
      assume "pre = []"
      with h(3) have "dropWhile d cs = run @ post" by simp
      with h(1,2) hd show False by (cases run) auto
    qed
    with h(4) obtain p c' where p: "pre = p @ [c']" "\<not> d c'" by blast
    have "c # cs = c # takeWhile d cs @ dropWhile d cs" by simp
    also have "\<dots> = ((c # takeWhile d cs @ p) @ [c']) @ run @ post"
      using h(3) p(1) by simp
    finally have "c # cs = ((c # takeWhile d cs @ p) @ [c']) @ run @ post" .
    with h(1,2,5) p(2) show ?thesis unfolding maximal_digit_run_def by blast
  qed
qed

lemma re_findall_digits_runs:
  "run \<in> set (re_findall_digits d s) \<longleftrightarrow> maximal_digit_run d s run"
  by (induction d s rule: re_findall_digits.induct)
     (auto simp: mdr_Nil mdr_nondigit mdr_digit)


lemma folio_check_iff:
  "folio_check rt q \<longleftrightarrow>
     contains_folio_keyword rt q \<and>
     (\<exists>run. maximal_digit_run (re_digit rt) q run \<and> 7 < length run)"
  unfolding folio_check_def contains_folio_keyword_def list_ex_iff str_in_sublist
    re_findall_digits_runs [symmetric]
  by blast

lemma rag_answer_guard:
  "folio_check rt q \<Longrightarrow> rag_answer rt sv q t = ([], Inr (folio_refusal, 0))"
  by (simp add: rag_answer_def)

lemma rag_answer_embeds_first:
  "\<not> folio_check rt q \<Longrightarrow> \<exists>cs. fst (rag_answer rt sv q t) = EmbeddingsCreate q # cs"
  by (auto simp: rag_answer_def get_embedding_def Let_def
           split: sum.splits list.splits prod.splits)

text \<open>
  Claim C2. The sensitive-data guard fires, that is \<open>rag_answer\<close> returns the folio
  refusal with score 0 having called no collaborator, exactly when a folio keyword
  occurs in the lowered question and some maximal digit run is longer than 7. When
  every maximal digit run has length at most 7 the guard does not fire, whatever the
  keywords: the embedding request is issued.
\<close>

theorem folio_guard_fires_iff:
  "(rag_answer rt sv q t = ([], Inr (folio_refusal, 0)) \<longleftrightarrow>
      contains_folio_keyword rt q \<and>
      (\<exists>run. maximal_digit_run (re_digit rt) q run \<and> 7 < length run))
   \<and> ((\<forall>run. maximal_digit_run (re_digit rt) q run \<longrightarrow> length run \<le> 7) \<longrightarrow>
        (\<exists>cs. fst (rag_answer rt sv q t) = EmbeddingsCreate q # cs))"
proof (cases "folio_check rt q")
  case True
  then show ?thesis
    using rag_answer_guard [OF True, of sv t] folio_check_iff [of rt q] by fastforce
next
  case False
  from rag_answer_embeds_first [OF False, of sv t]
  obtain cs where cs: "fst (rag_answer rt sv q t) = EmbeddingsCreate q # cs" ..
  then have "rag_answer rt sv q t \<noteq> ([], Inr (folio_refusal, 0))" by auto
  with False cs show ?thesis using folio_check_iff [of rt q] by blast
qed

theorem folio_guard_fires_iff_witness:
  "rag_answer basic_rt (stub_services (Inr []) [] []) (ascii ''What is folio number 12345678?'')
       (Some 0.7) = ([], Inr (folio_refusal, 0))
   \<and> contains_folio_keyword basic_rt (ascii ''What is folio number 12345678?'')
   \<and> (\<exists>run. maximal_digit_run (re_digit basic_rt) (ascii ''What is folio number 12345678?'') run
         \<and> 7 < length run)
   \<and> (\<exists>cs. fst (rag_answer basic_rt (stub_services (Inr []) [] [])
                  (ascii ''Folio number 1234567 or 7654321'') (Some 0.7))
            = EmbeddingsCreate (ascii ''Folio number 1234567 or 7654321'') # cs)"
proof -
  let ?sv = "stub_services (Inr []) [] []"
  let ?q = "ascii ''What is folio number 12345678?''"
  let ?q' = "ascii ''Folio number 1234567 or 7654321''"
  have fires: "rag_answer basic_rt ?sv ?q (Some 0.7) = ([], Inr (folio_refusal, 0))"
    by (simp add: rag_answer_def folio_check_def basic_rt_def ascii_def folio_keywords_def
          ascii_lower_def)
  have short: "\<forall>run. maximal_digit_run (re_digit basic_rt) ?q' run \<longrightarrow> length run \<le> 7"
    unfolding re_findall_digits_runs [symmetric]
    by (simp add: basic_rt_def ascii_def)
  from folio_guard_fires_iff [of basic_rt ?sv ?q "Some 0.7"] fires
    folio_guard_fires_iff [of basic_rt ?sv ?q' "Some 0.7"] short
  show ?thesis by blast
qed

section \<open>Retrieval, threshold decision and fallback\<close>

lemma rag_answer_retrieved:
  assumes "retrieves rt sv q emb (top_row # rest)"
  shows "rag_answer rt sv q t =
           ([EmbeddingsCreate q, CollectionQuery emb 2]
              @ fst (threshold_step rt sv q t (top_row # rest) top_row),
            snd (threshold_step rt sv q t (top_row # rest) top_row))"
  using assms by (simp add: retrieves_def rag_answer_def get_embedding_def case_prod_beta)

lemma gpt_fallback_first_call:
  "\<exists>cs. fst (gpt_fallback rt sv q rows d) = ChatCompletionsCreate (finance_check_prompt q) (Some 0) # cs"
  by (auto simp: gpt_fallback_def Let_def split: sum.splits)

lemma known_language_cases:
  "lang \<in> set known_languages \<longleftrightarrow>
     lang = ascii ''english'' \<or> lang = ascii ''hindi'' \<or> lang = ascii ''hinglish''"
  by (auto simp: known_languages_def)

lemma match_branch_known:
  assumes "meta (ascii ''language'') = Some lang" "lang \<in> set known_languages"
  shows "match_branch meta d = Some (with_score (meta_get meta (ascii ''answer_'' @ lang)) (1 - d))"
  using assms unfolding known_language_cases
  by (auto simp: match_branch_def meta_get_def ascii_def)

lemma match_branch_unknown:
  assumes "meta (ascii ''language'') = Some lang" "lang \<notin> set known_languages"
  shows "match_branch meta d = None"
  using assms unfolding known_language_cases
  by (auto simp: match_branch_def meta_get_def)

text \<open>
  Claim C6. When the guard passes, the embedding is obtained and the index query answers
  with no row, \<open>rag_answer\<close> returns the fixed "no similar question" text with score 0,
  and the only calls made are the embedding request and the query: neither the
  classifier nor the generator is invoked. This holds whatever the threshold is.
\<close>

theorem no_results:
  assumes "retrieves rt sv q emb []"
  shows "rag_answer rt sv q t =
           ([EmbeddingsCreate q, CollectionQuery emb 2], Inr (no_similar_question, 0))"
  using assms by (simp add: retrieves_def rag_answer_def get_embedding_def)

text \<open>
  Claim C3. When the nearest row's distance \<open>d\<close> satisfies \<open>d \<le> 1 - t\<close> and its language tag
  is one of english, hindi, hinglish, \<open>rag_answer\<close> returns the answer stored in that
  row's metadata under \<open>answer_\<close> followed by the tag, with score exactly \<open>1 - d\<close>, and
  the only calls are the embedding request and the query.
\<close>

theorem match_returns_variant:
  assumes "retrieves rt sv q emb (top_row # rest)"
    and "distance top_row \<le> 1 - t"
    and "metadata top_row (ascii ''language'') = Some lang"
    and "lang \<in> set known_languages"
    and "metadata top_row (ascii ''answer_'' @ lang) = Some a"
  shows "rag_answer rt sv q (Some t) =
           ([EmbeddingsCreate q, CollectionQuery emb 2], Inr (a, 1 - distance top_row))"
  using assms(2,5) match_branch_known [where meta = "metadata top_row", OF assms(3,4)]
  by (simp add: rag_answer_retrieved [OF assms(1)] threshold_step_def meta_get_def with_score_def)

lemma match_branch_returns:
  "match_branch meta d \<noteq> None \<longleftrightarrow>
     \<not> (\<exists>lang. meta (ascii ''language'') = Some lang \<and> lang \<notin> set known_languages)"
  unfolding known_language_cases
  by (cases "meta (ascii ''language'')") (auto simp: match_branch_def meta_get_def)

lemma threshold_no_chat:
  "list_all (\<lambda>c. \<not> is_chat_call c) (fst (threshold_step rt sv q (Some t) rows top_row))
     \<longleftrightarrow> distance top_row \<le> 1 - t \<and> match_branch (metadata top_row) (distance top_row) \<noteq> None"
proof -
  obtain cs where cs: "fst (gpt_fallback rt sv q rows (distance top_row))
      = ChatCompletionsCreate (finance_check_prompt q) (Some 0) # cs"
    using gpt_fallback_first_call by blast
  show ?thesis
  proof (cases "distance top_row \<le> 1 - t")
    case True
    with cs show ?thesis
      by (cases "match_branch (metadata top_row) (distance top_row)")
         (simp_all add: threshold_step_def)
  next
    case False
    with cs show ?thesis by (simp add: threshold_step_def)
  qed
qed

lemma rag_no_chat:
  assumes "retrieves rt sv q emb (top_row # rest)"
  shows "list_all (\<lambda>c. \<not> is_chat_call c) (fst (rag_answer rt sv q (Some t)))
         \<longleftrightarrow> distance top_row \<le> 1 - t \<and>
             \<not> (\<exists>lang. metadata top_row (ascii ''language'') = Some lang \<and>
                    lang \<notin> set known_languages)"
proof -
  have "list_all (\<lambda>c. \<not> is_chat_call c) (fst (rag_answer rt sv q (Some t)))
        \<longleftrightarrow> list_all (\<lambda>c. \<not> is_chat_call c)
              (fst (threshold_step rt sv q (Some t) (top_row # rest) top_row))"
    by (simp add: rag_answer_retrieved [OF assms])
  also have "\<dots> \<longleftrightarrow> distance top_row \<le> 1 - t \<and>
                   match_branch (metadata top_row) (distance top_row) \<noteq> None"
    by (rule threshold_no_chat)
  also have "\<dots> \<longleftrightarrow> distance top_row \<le> 1 - t \<and>
             \<not> (\<exists>lang. metadata top_row (ascii ''language'') = Some lang \<and>
                    lang \<notin> set known_languages)"
    by (simp only: match_branch_returns)
  finally show ?thesis .
qed

text \<open>
  Claim C1. For a question that reaches the threshold step with a nearest row of
  distance \<open>d\<close>, the match branch answers (no chat-completion request is issued) exactly
  when \<open>d \<le> 1 - t\<close>, for every row whose language tag is not an unknown one (a row with
  an unknown tag never answers from the match branch, see C8). Hence raising the
  threshold can only lose matches, \<open>t = 1\<close> matches exactly \<open>d \<le> 0\<close> and \<open>t = 0\<close>
  matches exactly \<open>d \<le> 1\<close>.
\<close>

theorem threshold_decision:
  assumes "retrieves rt sv q emb (top_row # rest)"
  shows "(list_all (\<lambda>c. \<not> is_chat_call c) (fst (rag_answer rt sv q (Some t)))
            \<longleftrightarrow> distance top_row \<le> 1 - t \<and>
                \<not> (\<exists>lang. metadata top_row (ascii ''language'') = Some lang \<and>
                       lang \<notin> set known_languages))
       \<and> (\<forall>t'. t \<le> t' \<and> list_all (\<lambda>c. \<not> is_chat_call c) (fst (rag_answer rt sv q (Some t')))
              \<longrightarrow> list_all (\<lambda>c. \<not> is_chat_call c) (fst (rag_answer rt sv q (Some t))))
       \<and> (list_all (\<lambda>c. \<not> is_chat_call c) (fst (rag_answer rt sv q (Some 1)))
            \<longleftrightarrow> distance top_row \<le> 0 \<and>
                \<not> (\<exists>lang. metadata top_row (ascii ''language'') = Some lang \<and>
                       lang \<notin> set known_languages))
       \<and> (list_all (\<lambda>c. \<not> is_chat_call c) (fst (rag_answer rt sv q (Some 0)))
            \<longleftrightarrow> distance top_row \<le> 1 \<and>
                \<not> (\<exists>lang. metadata top_row (ascii ''language'') = Some lang \<and>
                       lang \<notin> set known_languages))"
  unfolding rag_no_chat [OF assms] by auto

text \<open>
  Claim C8. When the nearest row satisfies \<open>d \<le> 1 - t\<close> but its language tag is none of
  english, hindi, hinglish, the match branch returns nothing: \<open>rag_answer\<close> behaves
  exactly as under any threshold \<open>t'\<close> for which the row does not match, and the next
  call after retrieval is the domain classifier's.
\<close>

theorem unknown_language_falls_through:
  assumes "retrieves rt sv q emb (top_row # rest)"
    and "distance top_row \<le> 1 - t"
    and "metadata top_row (ascii ''language'') = Some lang"
    and "lang \<notin> set known_languages"
    and "1 - t' < distance top_row"
  shows "rag_answer rt sv q (Some t) = rag_answer rt sv q (Some t')
       \<and> (\<exists>cs. fst (rag_answer rt sv q (Some t)) =
             [EmbeddingsCreate q, CollectionQuery emb 2,
              ChatCompletionsCreate (finance_check_prompt q) (Some 0)] @ cs)"
proof -
  have 1: "threshold_step rt sv q (Some t) (top_row # rest) top_row
           = gpt_fallback rt sv q (top_row # rest) (distance top_row)"
    using assms(2) match_branch_unknown [where meta = "metadata top_row", OF assms(3,4)] by (simp add: threshold_step_def)
  have 2: "threshold_step rt sv q (Some t') (top_row # rest) top_row
           = gpt_fallback rt sv q (top_row # rest) (distance top_row)"
    using assms(5) by (simp add: threshold_step_def)
  obtain cs where cs: "fst (gpt_fallback rt sv q (top_row # rest) (distance top_row))
      = ChatCompletionsCreate (finance_check_prompt q) (Some 0) # cs"
    using gpt_fallback_first_call by blast
  show ?thesis
    using cs by (simp add: rag_answer_retrieved [OF assms(1)] 1 2)
qed


lemma threshold_step_no_match:
  assumes "1 - t < distance top_row \<or>
           (\<exists>lang. metadata top_row (ascii ''language'') = Some lang \<and> lang \<notin> set known_languages)"
  shows "threshold_step rt sv q (Some t) rows top_row = gpt_fallback rt sv q rows (distance top_row)"
proof (cases "distance top_row \<le> 1 - t")
  case True
  with assms obtain lang where "metadata top_row (ascii ''language'') = Some lang"
    "lang \<notin> set known_languages" by auto
  from match_branch_unknown [where meta = "metadata top_row", OF this] True
  show ?thesis by (simp add: threshold_step_def)
next
  case False
  then show ?thesis by (simp add: threshold_step_def)
qed

text \<open>
  Claim C4. On the no-match path (the nearest row is too far, or its tag is unknown),
  when the classifier's reply, stripped and uppercased, is not \<open>YES\<close>, \<open>rag_answer\<close>
  returns the fixed domain refusal with score 0, and the classifier request is the last
  call: the generator is not invoked.
\<close>

theorem domain_gate_refuses:
  assumes "retrieves rt sv q emb (top_row # rest)"
    and "1 - t < distance top_row \<or>
         (\<exists>lang. metadata top_row (ascii ''language'') = Some lang \<and> lang \<notin> set known_languages)"
    and "chat_completions_create sv (finance_check_prompt q) (Some 0) = Inr content"
    and "str_upper rt (str_strip rt content) \<noteq> ascii ''YES''"
  shows "rag_answer rt sv q (Some t) =
           ([EmbeddingsCreate q, CollectionQuery emb 2,
             ChatCompletionsCreate (finance_check_prompt q) (Some 0)],
            Inr (domain_refusal, 0))"
  using assms(3,4)
  by (simp add: rag_answer_retrieved [OF assms(1)] threshold_step_no_match [OF assms(2)]
        gpt_fallback_def)

lemma build_contexts_complete:
  assumes "list_all (\<lambda>n. metadata n (ascii ''answer_english'') \<noteq> None \<and>
                          metadata n (ascii ''answer_hindi'') \<noteq> None) rows"
  shows "build_contexts rows =
           Inr (map (\<lambda>n. context_entry (document n)
                            (the (metadata n (ascii ''answer_english'')))
                            (the (metadata n (ascii ''answer_hindi'')))) rows)"
  using assms by (induction rows) (auto simp: meta_get_def)

lemma sublist_str_join: "x \<in> set xs \<Longrightarrow> sublist x (str_join sep xs)"
proof (induction sep xs rule: str_join.induct)
  case (3 sep x' y ys)
  show ?case
  proof (cases "x = x'")
    case True
    then show ?thesis by (simp add: sublist_append_rightI)
  next
    case False
    with 3 have "sublist x (str_join sep (y # ys))" by simp
    moreover have "sublist (str_join sep (y # ys)) ((x' @ sep) @ str_join sep (y # ys))"
      by (rule sublist_append_leftI)
    ultimately have "sublist x ((x' @ sep) @ str_join sep (y # ys))"
      by (rule sublist_order.order_trans)
    then show ?thesis by simp
  qed
qed simp_all

lemma sublist_answer_prompt_context: "sublist c (answer_prompt c q)"
  unfolding answer_prompt_def sublist_def by (metis append_assoc)

lemma context_entry_parts:
  "sublist doc (context_entry doc ae ah)"
  "sublist ae (context_entry doc ae ah)"
  "sublist ah (context_entry doc ae ah)"
proof -
  have "context_entry doc ae ah
        = ascii ''Q: '' @ doc @ ([10] @ ascii ''A (English): '' @ ae @ [10] @ ascii ''A (Hindi): '' @ ah)"
    by (simp add: context_entry_def)
  then show "sublist doc (context_entry doc ae ah)" by (simp only: sublist_appendI)
  have "context_entry doc ae ah
        = (ascii ''Q: '' @ doc @ [10] @ ascii ''A (English): '') @ ae @ ([10] @ ascii ''A (Hindi): '' @ ah)"
    by (simp add: context_entry_def)
  then show "sublist ae (context_entry doc ae ah)" by (simp only: sublist_appendI)
  have "context_entry doc ae ah
        = (ascii ''Q: '' @ doc @ [10] @ ascii ''A (English): '' @ ae @ [10] @ ascii ''A (Hindi): '') @ ah"
    by (simp add: context_entry_def)
  then show "sublist ah (context_entry doc ae ah)" by (simp only: sublist_append_leftI)
qed

lemma sublist_answer_prompt_user_query: "sublist (ascii ''User Query: '' @ q) (answer_prompt c q)"
proof -
  have "answer_prompt c q
        = ([10] @ ascii ''You are a helpful financial assistant. Use the following context to answer the user query about finance.''
             @ [10, 10] @ ascii ''Context:'' @ [10] @ c @ [10, 10])
          @ (ascii ''User Query: '' @ q)
          @ ([10, 10] @ ascii ''Answer in a clear and natural way. Focus only on financial information.''
             @ [10])"
    by (simp add: answer_prompt_def)
  then show ?thesis by (simp only: sublist_appendI)
qed

text \<open>
  Claim C5. On the no-match path, when the classifier's reply, stripped and uppercased,
  is \<open>YES\<close> (every retrieved row carrying its English and Hindi answers, the generator
  answering), the generator is invoked exactly once, after the classifier, with a prompt
  that contains the user's query after \<open>User Query: \<close> and, for every retrieved row, the
  block \<open>Q: \<close> question text, \<open>A (English): \<close> English answer, \<open>A (Hindi): \<close> Hindi answer
  (so the row's question text and both answers occur in the prompt); \<open>rag_answer\<close>
  returns the generated text unchanged with score \<open>1 - d\<close>, \<open>d\<close> the nearest row's
  distance.
\<close>

theorem generated_fallback:
  assumes "retrieves rt sv q emb (top_row # rest)"
    and "1 - t < distance top_row \<or>
         (\<exists>lang. metadata top_row (ascii ''language'') = Some lang \<and> lang \<notin> set known_languages)"
    and "chat_completions_create sv (finance_check_prompt q) (Some 0) = Inr content"
    and "str_upper rt (str_strip rt content) = ascii ''YES''"
    and "list_all (\<lambda>n. metadata n (ascii ''answer_english'') \<noteq> None \<and>
                         metadata n (ascii ''answer_hindi'') \<noteq> None) (top_row # rest)"
    and "\<forall>p. chat_completions_create sv p None = Inr (gen p)"
  shows "\<exists>prompt.
           rag_answer rt sv q (Some t) =
             ([EmbeddingsCreate q, CollectionQuery emb 2,
               ChatCompletionsCreate (finance_check_prompt q) (Some 0),
               ChatCompletionsCreate prompt None],
              Inr (gen prompt, 1 - distance top_row))
         \<and> sublist (ascii ''User Query: '' @ q) prompt
         \<and> (\<forall>n \<in> set (top_row # rest). \<forall>ae ah.
               metadata n (ascii ''answer_english'') = Some ae \<and>
               metadata n (ascii ''answer_hindi'') = Some ah \<longrightarrow>
               sublist (ascii ''Q: '' @ document n @ [10] @ ascii ''A (English): '' @ ae
                          @ [10] @ ascii ''A (Hindi): '' @ ah) prompt
               \<and> sublist (document n) prompt \<and> sublist ae prompt \<and> sublist ah prompt)"
proof -
  let ?ctx = "\<lambda>n. context_entry (document n) (the (metadata n (ascii ''answer_english'')))
                    (the (metadata n (ascii ''answer_hindi'')))"
  let ?text = "str_join [10, 10] (map ?ctx (top_row # rest))"
  let ?prompt = "answer_prompt ?text q"
  have ra: "rag_answer rt sv q (Some t) =
             ([EmbeddingsCreate q, CollectionQuery emb 2,
               ChatCompletionsCreate (finance_check_prompt q) (Some 0),
               ChatCompletionsCreate ?prompt None],
              Inr (gen ?prompt, 1 - distance top_row))"
    using assms(3,4,6)
    by (simp add: rag_answer_retrieved [OF assms(1)] threshold_step_no_match [OF assms(2)]
          gpt_fallback_def build_contexts_complete [OF assms(5)] Let_def
          del: build_contexts.simps list.map)
  have ctx: "sublist (ascii ''Q: '' @ document n @ [10] @ ascii ''A (English): '' @ ae
                        @ [10] @ ascii ''A (Hindi): '' @ ah) ?prompt
             \<and> sublist (document n) ?prompt \<and> sublist ae ?prompt \<and> sublist ah ?prompt"
    if "n \<in> set (top_row # rest)" "metadata n (ascii ''answer_english'') = Some ae"
       "metadata n (ascii ''answer_hindi'') = Some ah" for n ae ah
  proof -
    have "?ctx n \<in> set (map ?ctx (top_row # rest))"
      unfolding set_map using that(1) by (rule imageI)
    then have "sublist (?ctx n) ?text" by (rule sublist_str_join)
    moreover have "sublist ?text ?prompt" by (rule sublist_answer_prompt_context)
    ultimately have "sublist (?ctx n) ?prompt" by (rule sublist_order.order_trans)
    then have block: "sublist (context_entry (document n) ae ah) ?prompt"
      using that(2,3) by simp
    have 1: "sublist (document n) ?prompt"
      using context_entry_parts(1) block by (rule sublist_order.order_trans)
    have 2: "sublist ae ?prompt"
      using context_entry_parts(2) block by (rule sublist_order.order_trans)
    have 3: "sublist ah ?prompt"
      using context_entry_parts(3) block by (rule sublist_order.order_trans)
    from block have "sublist (ascii ''Q: '' @ document n @ [10] @ ascii ''A (English): '' @ ae
                        @ [10] @ ascii ''A (Hindi): '' @ ah) ?prompt"
      by (simp only: context_entry_def)
    with 1 2 3 show ?thesis by blast
  qed
  have "sublist (ascii ''User Query: '' @ q) ?prompt"
    by (rule sublist_answer_prompt_user_query)
  with ra ctx show ?thesis by blast
qed


lemmas eval_defs = retrieves_def stub_services_def stored_row_def folio_check_def basic_rt_def
  ascii_def known_languages_def str_strip_def ascii_upper_def ascii_lower_def

theorem no_results_witness:
  "retrieves basic_rt (stub_services (Inr [1]) [] []) (ascii ''hello'') [1] []
   \<and> rag_answer basic_rt (stub_services (Inr [1]) [] []) (ascii ''hello'') (Some 0.7) =
       ([EmbeddingsCreate (ascii ''hello''), CollectionQuery [1] 2],
        Inr (no_similar_question, 0))"
proof -
  have r: "retrieves basic_rt (stub_services (Inr [1]) [] []) (ascii ''hello'') [1] []"
    by (simp add: eval_defs)
  from r no_results [OF r, of "Some 0.7"] show ?thesis by (rule conjI)
qed

theorem match_returns_variant_witness:
  "retrieves basic_rt (stub_services (Inr [1]) [stored_row (ascii ''english'') 0.1] [])
       (ascii ''what is a mutual fund'') [1] [stored_row (ascii ''english'') 0.1]
   \<and> distance (stored_row (ascii ''english'') 0.1) \<le> 1 - 0.7
   \<and> rag_answer basic_rt (stub_services (Inr [1]) [stored_row (ascii ''english'') 0.1] [])
       (ascii ''what is a mutual fund'') (Some 0.7) =
       ([EmbeddingsCreate (ascii ''what is a mutual fund''), CollectionQuery [1] 2],
        Inr (ascii ''A pooled investment.'', 0.9))"
proof -
  let ?row = "stored_row (ascii ''english'') 0.1"
  let ?sv = "stub_services (Inr [1]) [?row] []"
  let ?q = "ascii ''what is a mutual fund''"
  have r: "retrieves basic_rt ?sv ?q [1] (?row # [])" by (simp add: eval_defs)
  have d: "distance ?row \<le> 1 - 0.7" by (simp add: stored_row_def)
  have l: "metadata ?row (ascii ''language'') = Some (ascii ''english'')"
    by (simp add: stored_row_def ascii_def)
  have k: "ascii ''english'' \<in> set known_languages" by (simp add: known_languages_def)
  have a: "metadata ?row (ascii ''answer_'' @ ascii ''english'') = Some (ascii ''A pooled investment.'')"
    by (simp add: stored_row_def ascii_def)
  have "1 - distance ?row = 0.9" by (simp add: stored_row_def)
  with match_returns_variant [OF r d l k a] r d show ?thesis by simp
qed

theorem threshold_decision_witness:
  "retrieves basic_rt (stub_services (Inr [1]) [stored_row (ascii ''english'') 0.1] [])
       (ascii ''what is a mutual fund'') [1] [stored_row (ascii ''english'') 0.1]
   \<and> list_all (\<lambda>c. \<not> is_chat_call c)
        (fst (rag_answer basic_rt (stub_services (Inr [1]) [stored_row (ascii ''english'') 0.1] [])
               (ascii ''what is a mutual fund'') (Some 0.7)))
   \<and> list_all (\<lambda>c. \<not> is_chat_call c)
        (fst (rag_answer basic_rt (stub_services (Inr [1]) [stored_row (ascii ''english'') 0.1] [])
               (ascii ''what is a mutual fund'') (Some 0.5)))
   \<and> \<not> list_all (\<lambda>c. \<not> is_chat_call c)
        (fst (rag_answer basic_rt (stub_services (Inr [1]) [stored_row (ascii ''english'') 0.1] [])
               (ascii ''what is a mutual fund'') (Some 1)))
   \<and> list_all (\<lambda>c. \<not> is_chat_call c)
        (fst (rag_answer basic_rt (stub_services (Inr [1]) [stored_row (ascii ''english'') 0.1] [])
               (ascii ''what is a mutual fund'') (Some 0)))"
proof -
  let ?row = "stored_row (ascii ''english'') 0.1"
  let ?sv = "stub_services (Inr [1]) [?row] []"
  let ?q = "ascii ''what is a mutual fund''"
  let ?quiet = "\<lambda>t. list_all (\<lambda>c. \<not> is_chat_call c) (fst (rag_answer basic_rt ?sv ?q (Some t)))"
  have r: "retrieves basic_rt ?sv ?q [1] (?row # [])" by (simp add: eval_defs)
  have l: "\<not> (\<exists>lang. metadata ?row (ascii ''language'') = Some lang \<and>
                   lang \<notin> set known_languages)"
    by (simp add: stored_row_def ascii_def known_languages_def)
  have d: "distance ?row = 0.1" by (simp add: stored_row_def)
  note th = threshold_decision [OF r]
  have a: "?quiet 0.7" using th [of "0.7"] d l by simp
  have "(0.5::real) \<le> 0.7 \<and> ?quiet 0.7" using a by simp
  with th [of "0.5"] have b: "?quiet 0.5" by blast
  have c: "\<not> ?quiet 1" "?quiet 0" using th [of 0] d l by simp_all
  from r a b c show ?thesis by blast
qed

theorem unknown_language_falls_through_witness:
  "retrieves basic_rt (stub_services (Inr [1]) [stored_row (ascii ''tamil'') 0.1] (ascii ''no''))
       (ascii ''what is a mutual fund'') [1] [stored_row (ascii ''tamil'') 0.1]
   \<and> distance (stored_row (ascii ''tamil'') 0.1) \<le> 1 - 0.7
   \<and> 1 - 0.95 < distance (stored_row (ascii ''tamil'') 0.1)
   \<and> rag_answer basic_rt (stub_services (Inr [1]) [stored_row (ascii ''tamil'') 0.1] (ascii ''no''))
       (ascii ''what is a mutual fund'') (Some 0.7)
     = rag_answer basic_rt (stub_services (Inr [1]) [stored_row (ascii ''tamil'') 0.1] (ascii ''no''))
       (ascii ''what is a mutual fund'') (Some 0.95)
   \<and> (\<exists>cs. fst (rag_answer basic_rt
                  (stub_services (Inr [1]) [stored_row (ascii ''tamil'') 0.1] (ascii ''no''))
                  (ascii ''what is a mutual fund'') (Some 0.7)) =
             [EmbeddingsCreate (ascii ''what is a mutual fund''), CollectionQuery [1] 2,
              ChatCompletionsCreate (finance_check_prompt (ascii ''what is a mutual fund'')) (Some 0)]
             @ cs)"
proof -
  let ?row = "stored_row (ascii ''tamil'') 0.1"
  let ?sv = "stub_services (Inr [1]) [?row] (ascii ''no'')"
  let ?q = "ascii ''what is a mutual fund''"
  have r: "retrieves basic_rt ?sv ?q [1] (?row # [])" by (simp add: eval_defs)
  have d: "distance ?row \<le> 1 - 0.7" by (simp add: stored_row_def)
  have d': "1 - 0.95 < distance ?row" by (simp add: stored_row_def)
  have l: "metadata ?row (ascii ''language'') = Some (ascii ''tamil'')"
    by (simp add: stored_row_def ascii_def)
  have k: "ascii ''tamil'' \<notin> set known_languages" by (simp add: known_languages_def ascii_def)
  from unknown_language_falls_through [OF r d l k d'] r d d' show ?thesis by blast
qed

theorem domain_gate_refuses_witness:
  "retrieves basic_rt (stub_services (Inr [1]) [stored_row (ascii ''english'') 0.9] (ascii '' no''))
       (ascii ''how do I bake bread'') [1] [stored_row (ascii ''english'') 0.9]
   \<and> 1 - 0.7 < distance (stored_row (ascii ''english'') 0.9)
   \<and> str_upper basic_rt (str_strip basic_rt (ascii '' no'')) \<noteq> ascii ''YES''
   \<and> rag_answer basic_rt (stub_services (Inr [1]) [stored_row (ascii ''english'') 0.9] (ascii '' no''))
       (ascii ''how do I bake bread'') (Some 0.7) =
       ([EmbeddingsCreate (ascii ''how do I bake bread''), CollectionQuery [1] 2,
         ChatCompletionsCreate (finance_check_prompt (ascii ''how do I bake bread'')) (Some 0)],
        Inr (domain_refusal, 0))"
proof -
  let ?row = "stored_row (ascii ''english'') 0.9"
  let ?sv = "stub_services (Inr [1]) [?row] (ascii '' no'')"
  let ?q = "ascii ''how do I bake bread''"
  have r: "retrieves basic_rt ?sv ?q [1] (?row # [])" by (simp add: eval_defs)
  have d: "1 - 0.7 < distance ?row \<or>
           (\<exists>lang. metadata ?row (ascii ''language'') = Some lang \<and> lang \<notin> set known_languages)"
    by (simp add: stored_row_def)
  have d': "1 - 0.7 < distance ?row" by (simp add: stored_row_def)
  have c: "chat_completions_create ?sv (finance_check_prompt ?q) (Some 0) = Inr (ascii '' no'')"
    by (simp add: stub_services_def)
  have n: "str_upper basic_rt (str_strip basic_rt (ascii '' no'')) \<noteq> ascii ''YES''"
    by (simp add: eval_defs)
  from domain_gate_refuses [OF r d c n] r d' n show ?thesis by blast
qed

theorem generated_fallback_witness:
  "retrieves basic_rt
       (stub_services (Inr [1]) [stored_row (ascii ''english'') 0.9, stored_row (ascii ''hindi'') 0.95]
          (ascii '' yes ''))
       (ascii ''is gold a good investment'') [1]
       [stored_row (ascii ''english'') 0.9, stored_row (ascii ''hindi'') 0.95]
   \<and> 1 - 0.7 < distance (stored_row (ascii ''english'') 0.9)
   \<and> str_upper basic_rt (str_strip basic_rt (ascii '' yes '')) = ascii ''YES''
   \<and> (\<exists>prompt.
        rag_answer basic_rt
          (stub_services (Inr [1]) [stored_row (ascii ''english'') 0.9, stored_row (ascii ''hindi'') 0.95]
             (ascii '' yes ''))
          (ascii ''is gold a good investment'') (Some 0.7) =
          ([EmbeddingsCreate (ascii ''is gold a good investment''), CollectionQuery [1] 2,
            ChatCompletionsCreate (finance_check_prompt (ascii ''is gold a good investment'')) (Some 0),
            ChatCompletionsCreate prompt None],
           Inr (ascii ''generated answer'', 1 - distance (stored_row (ascii ''english'') 0.9)))
        \<and> sublist (ascii ''User Query: '' @ ascii ''is gold a good investment'') prompt
        \<and> sublist (ascii ''Q: '' @ ascii ''What is a mutual fund?'' @ [10]
                     @ ascii ''A (English): '' @ ascii ''A pooled investment.'' @ [10]
                     @ ascii ''A (Hindi): '' @ [2344, 2367, 2357, 2375, 2358]) prompt
        \<and> sublist (ascii ''What is a mutual fund?'') prompt
        \<and> sublist (ascii ''A pooled investment.'') prompt
        \<and> sublist [2344, 2367, 2357, 2375, 2358] prompt)"
proof -
  let ?r1 = "stored_row (ascii ''english'') 0.9"
  let ?r2 = "stored_row (ascii ''hindi'') 0.95"
  let ?sv = "stub_services (Inr [1]) [?r1, ?r2] (ascii '' yes '')"
  let ?q = "ascii ''is gold a good investment''"
  have r: "retrieves basic_rt ?sv ?q [1] (?r1 # [?r2])" by (simp add: eval_defs)
  have d: "1 - 0.7 < distance ?r1 \<or>
           (\<exists>lang. metadata ?r1 (ascii ''language'') = Some lang \<and> lang \<notin> set known_languages)"
    by (simp add: stored_row_def)
  have d': "1 - 0.7 < distance ?r1" by (simp add: stored_row_def)
  have c: "chat_completions_create ?sv (finance_check_prompt ?q) (Some 0) = Inr (ascii '' yes '')"
    by (simp add: stub_services_def)
  have y: "str_upper basic_rt (str_strip basic_rt (ascii '' yes '')) = ascii ''YES''"
    by (simp add: eval_defs)
  have m: "list_all (\<lambda>n. metadata n (ascii ''answer_english'') \<noteq> None \<and>
                          metadata n (ascii ''answer_hindi'') \<noteq> None) (?r1 # [?r2])"
    by (simp add: stored_row_def ascii_def)
  have g: "\<forall>p. chat_completions_create ?sv p None = Inr ((\<lambda>p. ascii ''generated answer'') p)"
    by (simp add: stub_services_def)
  have e: "document ?r1 = ascii ''What is a mutual fund?''"
    "metadata ?r1 (ascii ''answer_english'') = Some (ascii ''A pooled investment.'')"
    "metadata ?r1 (ascii ''answer_hindi'') = Some [2344, 2367, 2357, 2375, 2358]"
    by (simp_all add: stored_row_def ascii_def)
  from generated_fallback [OF r d c y m g]
  obtain prompt where p:
    "rag_answer basic_rt ?sv ?q (Some 0.7) =
       ([EmbeddingsCreate ?q, CollectionQuery [1] 2,
         ChatCompletionsCreate (finance_check_prompt ?q) (Some 0),
         ChatCompletionsCreate prompt None],
        Inr (ascii ''generated answer'', 1 - distance ?r1))"
    "sublist (ascii ''User Query: '' @ ?q) prompt"
    "\<forall>n \<in> set (?r1 # [?r2]). \<forall>ae ah.
       metadata n (ascii ''answer_english'') = Some ae \<and>
       metadata n (ascii ''answer_hindi'') = Some ah \<longrightarrow>
       sublist (ascii ''Q: '' @ document n @ [10] @ ascii ''A (English): '' @ ae
                  @ [10] @ ascii ''A (Hindi): '' @ ah) prompt
       \<and> sublist (document n) prompt \<and> sublist ae prompt \<and> sublist ah prompt"
    by blast
  have "?r1 \<in> set (?r1 # [?r2])" by (rule list.set_intros(1))
  with p(3) e(2,3)
  have "sublist (ascii ''Q: '' @ document ?r1 @ [10] @ ascii ''A (English): ''
                   @ ascii ''A pooled investment.'' @ [10] @ ascii ''A (Hindi): ''
                   @ [2344, 2367, 2357, 2375, 2358]) prompt
        \<and> sublist (document ?r1) prompt \<and> sublist (ascii ''A pooled investment.'') prompt
        \<and> sublist [2344, 2367, 2357, 2375, 2358] prompt"
    by blast
  then have "sublist (ascii ''Q: '' @ ascii ''What is a mutual fund?'' @ [10]
                     @ ascii ''A (English): '' @ ascii ''A pooled investment.'' @ [10]
                     @ ascii ''A (Hindi): '' @ [2344, 2367, 2357, 2375, 2358]) prompt
        \<and> sublist (ascii ''What is a mutual fund?'') prompt
        \<and> sublist (ascii ''A pooled investment.'') prompt
        \<and> sublist [2344, 2367, 2357, 2375, 2358] prompt"
    by (simp only: e(1))
  with p(1,2) r d' y show ?thesis by blast
qed


section \<open>The shim: score reporting and status codes\<close>

lemma str_strip_Nil: "str_strip rt [] = []"
  by (simp add: str_strip_def)

lemma py_round4_zero: "py_round4 x = 0 \<longleftrightarrow> \<bar>x\<bar> \<le> 1 / 20000"
proof -
  define y where "y = x * 10000"
  define f where "f = \<lfloor>y\<rfloor>"
  have b: "of_int f \<le> y" "y < of_int f + 1" unfolding f_def by linarith+
  have x: "\<bar>x\<bar> \<le> 1 / 20000 \<longleftrightarrow> \<bar>y\<bar> \<le> 1 / 2" unfolding y_def by auto
  have r: "py_round4 x = of_int (if y - of_int f < 1 / 2 then f else if 1 / 2 < y - of_int f then f + 1
              else if even f then f else f + 1) / 10000"
    unfolding py_round4_def Let_def y_def f_def by simp
  consider (neg2) "f \<le> -2" | (neg1) "f = -1" | (zero) "f = 0" | (pos) "f \<ge> 1" by linarith
  then have "(if y - of_int f < 1 / 2 then f else if 1 / 2 < y - of_int f then f + 1
              else if even f then f else f + 1) = 0 \<longleftrightarrow> \<bar>y\<bar> \<le> 1 / 2"
  proof cases
    case neg2
    then have "(of_int f :: real) \<le> -2" by linarith
    with b neg2 show ?thesis by auto
  next
    case neg1
    with b show ?thesis by auto
  next
    case zero
    with b show ?thesis by auto
  next
    case pos
    then have "(of_int f :: real) \<ge> 1" by linarith
    with b pos show ?thesis by auto
  qed
  then show ?thesis unfolding r x by simp
qed

text \<open>
  Claim C10, as the code has it. When the core returns an answer with score \<open>s\<close>, the
  response carries no similarity score if \<open>s\<close> is exactly 0 (so also for a threshold
  match at distance exactly 1), and carries \<open>round(s, 4)\<close> otherwise. That rounded value
  is itself 0 exactly when \<open>\<bar>s\<bar> \<le> 0.00005\<close>, so a non-zero score of that size is
  reported as the number 0.
\<close>

theorem chat_similarity_score:
  assumes "str_strip rt (question query) \<noteq> []"
    and "rag_answer rt sv (question query) (similarity_threshold query) = (cs, Inr (answer, score))"
  shows "chat rt sv query =
           (cs, Inr \<lparr>status = ascii ''success'', user_query = question query,
                     bot_response = answer,
                     similarity_score = (if score = 0 then None else Some (py_round4 score))\<rparr>)
       \<and> (py_round4 score = 0 \<longleftrightarrow> \<bar>score\<bar> \<le> 1 / 20000)"
proof -
  from assms(1) have "question query \<noteq> []" using str_strip_Nil by metis
  with assms show ?thesis
    by (simp add: chat_def chat_try_def py_round4_zero)
qed

text \<open>
  Claim C7. A question that is empty after stripping is rejected before the core is
  called: no collaborator is called. The rejection is raised with status 400 inside the
  \<open>try\<close>, is caught by the handler of the same \<open>try\<close> and reaches the caller with status
  500, which is also the status of every error the core raises.
\<close>

theorem chat_statuses:
  "(str_strip rt (question query) = [] \<longrightarrow>
      chat rt sv query =
        ([], Inl (HTTPException 500
                    (ascii ''Error processing query: ''
                       @ exc_str rt (HTTPException 400 (ascii ''Question cannot be empty''))))))
   \<and> (\<forall>cs e. str_strip rt (question query) \<noteq> [] \<and>
          rag_answer rt sv (question query) (similarity_threshold query) = (cs, Inl e) \<longrightarrow>
          chat rt sv query =
            (cs, Inl (HTTPException 500 (ascii ''Error processing query: '' @ exc_str rt e))))"
proof (intro conjI impI allI)
  assume "str_strip rt (question query) = []"
  then show "chat rt sv query =
        ([], Inl (HTTPException 500
                    (ascii ''Error processing query: ''
                       @ exc_str rt (HTTPException 400 (ascii ''Question cannot be empty'')))))"
    by (simp add: chat_def chat_try_def)
next
  fix cs e
  assume a: "str_strip rt (question query) \<noteq> [] \<and>
          rag_answer rt sv (question query) (similarity_threshold query) = (cs, Inl e)"
  then have "question query \<noteq> []" using str_strip_Nil by metis
  with a show "chat rt sv query =
            (cs, Inl (HTTPException 500 (ascii ''Error processing query: '' @ exc_str rt e)))"
    by (simp add: chat_def chat_try_def)
qed


lemma rag_example_small_score:
  "rag_answer basic_rt (stub_services (Inr [1]) [stored_row (ascii ''english'') (32767 / 32768)] [])
     (ascii ''hi'') (Some 0) =
     ([EmbeddingsCreate (ascii ''hi''), CollectionQuery [1] 2],
      Inr (ascii ''A pooled investment.'', 1 / 32768))"
  by (simp add: rag_answer_def get_embedding_def threshold_step_def match_branch_def
        meta_get_def with_score_def eval_defs)

text \<open>
  A threshold match at distance \<open>1 - 2\<^sup>-\<^sup>1\<^sup>5\<close> has the non-zero score \<open>2\<^sup>-\<^sup>1\<^sup>5\<close>, which rounds
  to 0 at four decimals: the response carries the number 0.
\<close>

theorem chat_reports_numeric_zero:
  "snd (chat basic_rt
          (stub_services (Inr [1]) [stored_row (ascii ''english'') (32767 / 32768)] [])
          \<lparr>question = ascii ''hi'', similarity_threshold = Some 0\<rparr>) =
     Inr \<lparr>status = ascii ''success'', user_query = ascii ''hi'',
          bot_response = ascii ''A pooled investment.'', similarity_score = Some 0\<rparr>"
proof -
  have "py_round4 (1 / 32768) = 0" by (simp add: py_round4_zero)
  moreover have "str_strip basic_rt (ascii ''hi'') \<noteq> []" by (simp add: eval_defs)
  moreover have "ascii ''hi'' \<noteq> []" by (simp add: ascii_def)
  ultimately show ?thesis
    by (simp add: chat_def chat_try_def rag_example_small_score)
qed

lemma rag_example_zero_score:
  "rag_answer basic_rt (stub_services (Inr [1]) [stored_row (ascii ''english'') 1] [])
     (ascii ''hi'') (Some 0) =
     ([EmbeddingsCreate (ascii ''hi''), CollectionQuery [1] 2],
      Inr (ascii ''A pooled investment.'', 0))"
  by (simp add: rag_answer_def get_embedding_def threshold_step_def match_branch_def
        meta_get_def with_score_def eval_defs)

theorem chat_similarity_score_witness:
  "str_strip basic_rt (ascii ''hi'') \<noteq> []
   \<and> chat basic_rt (stub_services (Inr [1]) [stored_row (ascii ''english'') 1] [])
       \<lparr>question = ascii ''hi'', similarity_threshold = Some 0\<rparr> =
       ([EmbeddingsCreate (ascii ''hi''), CollectionQuery [1] 2],
        Inr \<lparr>status = ascii ''success'', user_query = ascii ''hi'',
             bot_response = ascii ''A pooled investment.'', similarity_score = None\<rparr>)
   \<and> chat basic_rt (stub_services (Inr [1]) [stored_row (ascii ''english'') (1 / 10)] [])
       \<lparr>question = ascii ''hi'', similarity_threshold = Some 0.7\<rparr> =
       ([EmbeddingsCreate (ascii ''hi''), CollectionQuery [1] 2],
        Inr \<lparr>status = ascii ''success'', user_query = ascii ''hi'',
             bot_response = ascii ''A pooled investment.'',
             similarity_score = Some (py_round4 (9 / 10))\<rparr>)
   \<and> py_round4 (9 / 10) = 9 / 10"
proof -
  let ?q0 = "\<lparr>question = ascii ''hi'', similarity_threshold = Some 0\<rparr>"
  let ?q7 = "\<lparr>question = ascii ''hi'', similarity_threshold = Some 0.7\<rparr>"
  have s: "str_strip basic_rt (ascii ''hi'') \<noteq> []" by (simp add: eval_defs)
  have s0: "str_strip basic_rt (question ?q0) \<noteq> []" using s by simp
  have s7: "str_strip basic_rt (question ?q7) \<noteq> []" using s by simp
  have r0: "rag_answer basic_rt (stub_services (Inr [1]) [stored_row (ascii ''english'') 1] [])
              (question ?q0) (similarity_threshold ?q0) =
            ([EmbeddingsCreate (ascii ''hi''), CollectionQuery [1] 2],
             Inr (ascii ''A pooled investment.'', 0))"
    using rag_example_zero_score by simp
  have r7: "rag_answer basic_rt (stub_services (Inr [1]) [stored_row (ascii ''english'') (1 / 10)] [])
              (question ?q7) (similarity_threshold ?q7) =
            ([EmbeddingsCreate (ascii ''hi''), CollectionQuery [1] 2],
             Inr (ascii ''A pooled investment.'', 9 / 10))"
    by (simp add: rag_answer_def get_embedding_def threshold_step_def match_branch_def
          meta_get_def with_score_def eval_defs)
  have p: "py_round4 (9 / 10) = 9 / 10" by (simp add: py_round4_def)
  from chat_similarity_score [OF s0 r0] chat_similarity_score [OF s7 r7] s p
  show ?thesis by simp
qed

theorem chat_statuses_witness:
  "str_strip basic_rt (ascii ''   '') = []
   \<and> chat basic_rt (stub_services (Inr [1]) [] []) \<lparr>question = ascii ''   '', similarity_threshold = Some 0.7\<rparr> =
       ([], Inl (HTTPException 500
                   (ascii ''Error processing query: 400: Question cannot be empty'')))
   \<and> chat basic_rt (stub_services (Inl EmbeddingServiceError) [] [])
       \<lparr>question = ascii ''hi'', similarity_threshold = Some 0.7\<rparr> =
       ([EmbeddingsCreate (ascii ''hi'')], Inl (HTTPException 500 (ascii ''Error processing query: '')))
   \<and> status_code (snd (chat basic_rt (stub_services (Inr [1]) [] [])
        \<lparr>question = ascii ''   '', similarity_threshold = Some 0.7\<rparr>)) =
     status_code (snd (chat basic_rt (stub_services (Inl EmbeddingServiceError) [] [])
        \<lparr>question = ascii ''hi'', similarity_threshold = Some 0.7\<rparr>))"
proof -
  let ?blank = "\<lparr>question = ascii ''   '', similarity_threshold = Some 0.7\<rparr>"
  let ?hi = "\<lparr>question = ascii ''hi'', similarity_threshold = Some 0.7\<rparr>"
  let ?down = "stub_services (Inl EmbeddingServiceError) [] []"
  have b: "str_strip basic_rt (ascii ''   '') = []" by (simp add: eval_defs)
  have b': "str_strip basic_rt (question ?blank) = []" using b by simp
  have h: "str_strip basic_rt (question ?hi) \<noteq> [] \<and>
           rag_answer basic_rt ?down (question ?hi) (similarity_threshold ?hi) =
             ([EmbeddingsCreate (ascii ''hi'')], Inl EmbeddingServiceError)"
    by (simp add: rag_answer_def get_embedding_def eval_defs)
  have e1: "exc_str basic_rt (HTTPException 400 (ascii ''Question cannot be empty''))
            = ascii ''400: Question cannot be empty''"
    by (simp add: basic_rt_def ascii_def)
  have e2: "exc_str basic_rt EmbeddingServiceError = []" by (simp add: basic_rt_def)
  have c1: "chat basic_rt (stub_services (Inr [1]) [] []) ?blank =
       ([], Inl (HTTPException 500 (ascii ''Error processing query: 400: Question cannot be empty'')))"
    using chat_statuses [of basic_rt ?blank "stub_services (Inr [1]) [] []"] b' e1
    by (simp add: ascii_def)
  have c2: "chat basic_rt ?down ?hi =
       ([EmbeddingsCreate (ascii ''hi'')], Inl (HTTPException 500 (ascii ''Error processing query: '')))"
    using chat_statuses [of basic_rt ?hi ?down] h e2 by simp
  from b c1 c2 show ?thesis by simp
qed


section \<open>The loader\<close>

lemma added_rows_append: "added_rows (xs @ ys) = added_rows xs @ added_rows ys"
  by (induction xs rule: added_rows.induct) simp_all

lemma for_each_succeeds:
  assumes "\<And>x. x \<in> set xs \<Longrightarrow> snd (body x) = None"
  shows "for_each body xs = (concat (map (\<lambda>x. fst (body x)) xs), None)"
  using assms
proof (induction xs)
  case Nil
  show ?case by simp
next
  case (Cons x xs)
  then have "snd (body x) = None" by simp
  then obtain cs where "body x = (cs, None)" by (cases "body x") simp
  with Cons show ?case by simp
qed

lemma store_variant_succeeds:
  assumes "\<forall>text. embeddings_create sv text = Inr (emb text)"
    and "\<forall>row. collection_add sv row = Inr ()"
  shows "store_variant rt sv item (lang, q_text) =
           (if str_strip rt q_text \<noteq> []
            then [EmbeddingsCreate q_text, CollectionAdd (make_row item lang q_text (emb q_text))]
            else [], None)"
  using assms by (simp add: store_variant_def get_embedding_def)

lemma store_item_succeeds:
  assumes "\<forall>text. embeddings_create sv text = Inr (emb text)"
    and "\<forall>row. collection_add sv row = Inr ()"
  shows "snd (store_item rt sv item) = None"
    and "added_rows (fst (store_item rt sv item)) = expected_rows rt emb [item]"
proof -
  have s: "store_item rt sv item =
      (concat (map (\<lambda>v. fst (store_variant rt sv item v)) (question_variants item)), None)"
    unfolding store_item_def
    by (rule for_each_succeeds) (auto simp: store_variant_succeeds [OF assms])
  show "snd (store_item rt sv item) = None" by (simp add: s)
  show "added_rows (fst (store_item rt sv item)) = expected_rows rt emb [item]"
    by (simp add: s question_variants_def store_variant_succeeds [OF assms] expected_rows_def
          make_row_def added_rows_append)
qed

lemma expected_rows_Cons:
  "expected_rows rt emb (item # data) = expected_rows rt emb [item] @ expected_rows rt emb data"
  by (simp add: expected_rows_def)

lemma added_rows_items:
  assumes "\<forall>text. embeddings_create sv text = Inr (emb text)"
    and "\<forall>row. collection_add sv row = Inr ()"
  shows "added_rows (concat (map (\<lambda>item. fst (store_item rt sv item)) data))
         = expected_rows rt emb data"
proof (induction data)
  case Nil
  show ?case by (simp add: expected_rows_def)
next
  case (Cons item data)
  then show ?case
    by (simp add: added_rows_append store_item_succeeds(2) [OF assms]
          expected_rows_Cons [of rt emb item data] del: list.map)
       (simp add: added_rows_append store_item_succeeds(2) [OF assms])
qed

text \<open>
  Claim C9. With every embedding request and every insertion succeeding, the loader
  inserts rows exactly when the collection's count is 0: then the rows inserted are, in
  order, exactly the expected rows (one per corpus entry and language variant whose
  question is non-empty after stripping, keyed \<open>id_language\<close>, with the question text,
  its embedding, the three answers and the language tag); with a non-zero count the
  count request is the only call made.
\<close>

theorem initialize_app_inserts:
  assumes "collection_count sv = Inr n"
    and "\<forall>text. embeddings_create sv text = Inr (emb text)"
    and "\<forall>row. collection_add sv row = Inr ()"
  shows "added_rows (fst (initialize_app rt sv data)) =
           (if n = 0 then expected_rows rt emb data else [])
       \<and> snd (initialize_app rt sv data) = None
       \<and> (n \<noteq> 0 \<longrightarrow> fst (initialize_app rt sv data) = [CollectionCount])"
proof -
  have f: "for_each (store_item rt sv) data =
      (concat (map (\<lambda>item. fst (store_item rt sv item)) data), None)"
    by (rule for_each_succeeds) (simp add: store_item_succeeds(1) [OF assms(2,3)])
  show ?thesis
    using assms(1) by (simp add: initialize_app_def f added_rows_items [OF assms(2,3)])
qed


theorem initialize_app_inserts_witness:
  "collection_count (stub_services (Inr [1]) [] []) = Inr 0
   \<and> added_rows (fst (initialize_app basic_rt (stub_services (Inr [1]) [] []) demo_corpus)) =
       [\<lparr>ids = ascii ''q1_english'', documents = ascii ''What is SIP?'',
          metadatas =
            [ascii ''answer_english'' \<mapsto> ascii ''A plan.'',
             ascii ''answer_hinglish'' \<mapsto> ascii ''Ek plan.'',
             ascii ''answer_hindi'' \<mapsto> [2351, 2379, 2332, 2344, 2366],
             ascii ''language'' \<mapsto> ascii ''english''],
          embeddings = [1]\<rparr>,
        \<lparr>ids = ascii ''q1_hindi'', documents = [2319, 2360, 2310, 2312, 2346, 2368],
          metadatas =
            [ascii ''answer_english'' \<mapsto> ascii ''A plan.'',
             ascii ''answer_hinglish'' \<mapsto> ascii ''Ek plan.'',
             ascii ''answer_hindi'' \<mapsto> [2351, 2379, 2332, 2344, 2366],
             ascii ''language'' \<mapsto> ascii ''hindi''],
          embeddings = [1]\<rparr>]
   \<and> fst (initialize_app basic_rt
            ((stub_services (Inr [1]) [] []) \<lparr>collection_count := Inr 5\<rparr>) demo_corpus)
       = [CollectionCount]"
proof -
  let ?sv = "stub_services (Inr [1]) [] []"
  let ?sv' = "?sv \<lparr>collection_count := Inr 5\<rparr>"
  have c: "collection_count ?sv = Inr 0" by (simp add: stub_services_def)
  have c': "collection_count ?sv' = Inr 5" by simp
  have e: "\<forall>text. embeddings_create ?sv text = Inr ((\<lambda>t. [1]) text)"
    by (simp add: stub_services_def)
  have e': "\<forall>text. embeddings_create ?sv' text = Inr ((\<lambda>t. [1]) text)"
    by (simp add: stub_services_def)
  have a: "\<forall>row. collection_add ?sv row = Inr ()" by (simp add: stub_services_def)
  have a': "\<forall>row. collection_add ?sv' row = Inr ()" by (simp add: stub_services_def)
  have x: "expected_rows basic_rt (\<lambda>t. [1]) demo_corpus =
       [\<lparr>ids = ascii ''q1_english'', documents = ascii ''What is SIP?'',
          metadatas =
            [ascii ''answer_english'' \<mapsto> ascii ''A plan.'',
             ascii ''answer_hinglish'' \<mapsto> ascii ''Ek plan.'',
             ascii ''answer_hindi'' \<mapsto> [2351, 2379, 2332, 2344, 2366],
             ascii ''language'' \<mapsto> ascii ''english''],
          embeddings = [1]\<rparr>,
        \<lparr>ids = ascii ''q1_hindi'', documents = [2319, 2360, 2310, 2312, 2346, 2368],
          metadatas =
            [ascii ''answer_english'' \<mapsto> ascii ''A plan.'',
             ascii ''answer_hinglish'' \<mapsto> ascii ''Ek plan.'',
             ascii ''answer_hindi'' \<mapsto> [2351, 2379, 2332, 2344, 2366],
             ascii ''language'' \<mapsto> ascii ''hindi''],
          embeddings = [1]\<rparr>]"
    by (simp add: expected_rows_def demo_corpus_def basic_rt_def str_strip_def ascii_def)
  from initialize_app_inserts [OF c e a, of basic_rt demo_corpus]
    initialize_app_inserts [OF c' e' a', of basic_rt demo_corpus] c x
  show ?thesis by simp
qed


end
